theory Spec2Isabelle
  imports Main "HOL-Library.Word"
begin

section \<open>Python values and exceptions\<close>

text \<open>
  The identifiers of \<^verbatim>\<open>src/syft/core/common/uid.py\<close> wrap a \<^verbatim>\<open>uuid.UUID\<close>, a 128-bit
  value, which is a \<open>128 word\<close> here. A byte string is a list of 8-bit words.
\<close>

type_synonym uuid_type = "128 word"
type_synonym bytes = "8 word list"

text \<open>The exceptions that the two source files (and \<^verbatim>\<open>uuid.UUID\<close>) raise.\<close>

datatype error =
    KeyError string
  | ValueError string
  | NotImplementedError

text \<open>
  A \<^verbatim>\<open>UID\<close> object: the attribute \<^verbatim>\<open>value\<close> set by \<^verbatim>\<open>UID.__init__\<close>, and the attribute
  \<^verbatim>\<open>as_wrapper\<close> that \<^verbatim>\<open>_object2proto\<close> reads back.
\<close>

record UID =
  uid_value :: uuid_type
  as_wrapper :: bool

text \<open>
  The Python objects that the modelled methods accept or return. \<^verbatim>\<open>__eq__\<close> is called
  with any object, \<^verbatim>\<open>_proto2object\<close> returns either a native uuid or a \<^verbatim>\<open>UID\<close>.
\<close>

datatype pyobj =
    PyNone
  | PyBool bool
  | PyInt int
  | PyStr string
  | PyBytes bytes
  | PyUUID uuid_type
  | PyUID UID

section \<open>The standard library's uuid.UUID\<close>

text \<open>
  \<^verbatim>\<open>UUID.int\<close> is the value as a Python integer, \<^verbatim>\<open>UUID.bytes\<close> is
  \<^verbatim>\<open>int.to_bytes(16, 'big')\<close>, and \<^verbatim>\<open>UUID(bytes=b)\<close> raises \<^verbatim>\<open>ValueError\<close> unless
  \<^verbatim>\<open>len(b) == 16\<close>, reads \<^verbatim>\<open>int.from_bytes(b, 'big')\<close> and checks that the integer
  is in \<open>[0, 2^128)\<close>.
\<close>

definition UUID_int :: "uuid_type \<Rightarrow> int" where
  "UUID_int v = uint v"

fun to_bytes_big :: "int \<Rightarrow> nat \<Rightarrow> bytes" where
  "to_bytes_big n 0 = []"
| "to_bytes_big n (Suc k) = to_bytes_big (n div 256) k @ [word_of_int n]"

definition from_bytes_big :: "bytes \<Rightarrow> int" where
  "from_bytes_big bs = foldl (\<lambda>acc b. acc * 256 + uint b) 0 bs"

definition UUID_bytes :: "uuid_type \<Rightarrow> bytes" where
  "UUID_bytes v = to_bytes_big (UUID_int v) 16"

definition UUID_of_bytes :: "bytes \<Rightarrow> error + uuid_type" where
  "UUID_of_bytes b =
     (if length b \<noteq> 16 then Inl (ValueError ''bytes is not a 16-char string'')
      else if \<not> (0 \<le> from_bytes_big b \<and> from_bytes_big b < 2 ^ 128)
        then Inl (ValueError ''int is out of range (need a 128-bit value)'')
      else Inr (word_of_int (from_bytes_big b)))"

section \<open>UID\<close>

text \<open>
  The decorators \<^verbatim>\<open>syft_decorator\<close> and \<^verbatim>\<open>type_hints\<close> are not in the source files.
  The definitions below are the bodies of the methods as written; the argument types that
  the decorators enforce are the HOL types of the arguments, except for \<^verbatim>\<open>__eq__\<close>,
  whose body tests the class of \<^verbatim>\<open>other\<close> itself and so takes any object. The metaclass
  \<^verbatim>\<open>WorkerSupervisor\<close>, which is not in the source files either, has a definition of
  its own in the section on the Worker.
\<close>

text \<open>
  \<^verbatim>\<open>UID.__init__(value=None, as_wrapper=False)\<close>. A missing value is replaced by
  \<^verbatim>\<open>uuid.uuid4()\<close>, whose random result is the parameter \<open>fresh\<close>.

  Modelled from the spec: \<^verbatim>\<open>Serializable.__init__\<close> is not in the source files; the
  wrapper status "is tracked with an explicit \<^verbatim>\<open>as_wrapper\<close> flag", so the call
  \<^verbatim>\<open>super().__init__(as_wrapper=as_wrapper)\<close> stores the flag on the object.
\<close>

definition UID_init :: "uuid_type option \<Rightarrow> bool \<Rightarrow> uuid_type \<Rightarrow> UID" where
  "UID_init val wrapper fresh =
     \<lparr>uid_value = (case val of None \<Rightarrow> fresh | Some v \<Rightarrow> v), as_wrapper = wrapper\<rparr>"

text \<open>\<^verbatim>\<open>UID.__hash__\<close>: \<^verbatim>\<open>return self.value.int\<close>.\<close>

definition UID_hash :: "UID \<Rightarrow> int" where
  "UID_hash self = UUID_int (uid_value self)"

text \<open>
  The builtin \<^verbatim>\<open>hash(x)\<close> of CPython (64-bit build) for an object whose class defines
  \<^verbatim>\<open>__hash__\<close>: an integer returned by \<^verbatim>\<open>__hash__\<close> that fits the signed 64-bit
  \<^verbatim>\<open>Py_ssize_t\<close> is kept, any other is replaced by the hash of that integer, which is its
  magnitude modulo the prime \<open>2^61 - 1\<close> with its sign; the value \<open>-1\<close> is reserved and
  replaced by \<open>-2\<close>. This is the "shorter representation" of the note in the docstring of
  \<^verbatim>\<open>UID.__hash__\<close>.
\<close>

definition long_hash :: "int \<Rightarrow> int" where
  "long_hash n =
     (let x = sgn n * (\<bar>n\<bar> mod (2 ^ 61 - 1)) in if x = - 1 then - 2 else x)"

definition builtin_hash :: "int \<Rightarrow> int" where
  "builtin_hash r =
     (let h = (if - (2 ^ 63) \<le> r \<and> r < 2 ^ 63 then r else long_hash r)
      in if h = - 1 then - 2 else h)"

text \<open>\<^verbatim>\<open>hash(u)\<close> for a UID \<^verbatim>\<open>u\<close>.\<close>

definition hash_UID :: "UID \<Rightarrow> int" where
  "hash_UID self = builtin_hash (UID_hash self)"

text \<open>
  \<^verbatim>\<open>UID.__eq__\<close>: the only statement is an \<^verbatim>\<open>if isinstance(other, UID)\<close> without
  \<^verbatim>\<open>else\<close>, so for any other object the method falls off its end and returns \<^verbatim>\<open>None\<close>.
\<close>

fun UID_eq :: "UID \<Rightarrow> pyobj \<Rightarrow> pyobj" where
  "UID_eq self (PyUID other) = PyBool (uid_value self = uid_value other)"
| "UID_eq self other = PyNone"

text \<open>The protobuf message \<^verbatim>\<open>ProtoUID(obj_type, value, as_wrapper)\<close>.\<close>

record ProtoUID =
  obj_type :: string
  proto_value :: bytes
  proto_as_wrapper :: bool

text \<open>
  \<^verbatim>\<open>UID._object2proto\<close>. The class is final, so \<^verbatim>\<open>type(self)\<close> is \<^verbatim>\<open>UID\<close> of the module
  \<^verbatim>\<open>syft.core.common.uid\<close>.
\<close>

definition object2proto :: "UID \<Rightarrow> ProtoUID" where
  "object2proto self =
     \<lparr>obj_type = ''syft.core.common.uid'' @ ''.'' @ ''UID'',
      proto_value = UUID_bytes (uid_value self),
      proto_as_wrapper = as_wrapper self\<rparr>"

text \<open>
  \<^verbatim>\<open>UID._proto2object\<close>: the native uuid when the flag is set, and otherwise
  \<^verbatim>\<open>UID(value=value)\<close>, whose \<^verbatim>\<open>as_wrapper\<close> is the default \<^verbatim>\<open>False\<close>. Since a value is
  given, \<^verbatim>\<open>uuid4()\<close> is not consulted.
\<close>

definition proto2object :: "ProtoUID \<Rightarrow> error + pyobj" where
  "proto2object proto =
     (case UUID_of_bytes (proto_value proto) of
        Inl e \<Rightarrow> Inl e
      | Inr v \<Rightarrow>
          if proto_as_wrapper proto then Inr (PyUUID v)
          else Inr (PyUID (UID_init (Some v) False 0)))"

section \<open>Worker\<close>

text \<open>
  Modelled from the spec: the message classes imported by \<^verbatim>\<open>worker.py\<close> are not in the
  source files. A message is "a tagged union with fixed variants: \<^verbatim>\<open>SaveObject{uid, object}\<close>,
  \<^verbatim>\<open>GetObject{uid}\<close>, \<^verbatim>\<open>DeleteObject{uid}\<close>, \<^verbatim>\<open>RunClassMethod{uid, method_name, args}\<close>,
  \<^verbatim>\<open>RunFunctionOrConstructor{path, args}\<close>".
\<close>

datatype SyftMessage =
    SaveObjectMessage UID pyobj
  | GetObjectMessage UID
  | DeleteObjectMessage UID
  | RunClassMethodMessage UID string "pyobj list"
  | RunFunctionOrConstructorMessage string "pyobj list"

text \<open>
  Modelled from the spec: \<^verbatim>\<open>ObjectStore\<close> is not in the source files. It is "a mapping
  from UID to an opaque owned object", "created empty when a Worker is constructed".
\<close>

type_synonym ObjectStore = "(UID \<times> pyobj) list"

definition ObjectStore_init :: ObjectStore where
  "ObjectStore_init = []"

text \<open>
  Modelled from the spec: \<^verbatim>\<open>Globals\<close> is not in the source files. The source reads and
  writes its dictionary \<^verbatim>\<open>attrs\<close>, from a name to a call-graph node (of type \<open>'a\<close>); the
  Worker "registers frameworks one at a time", so a new \<^verbatim>\<open>Globals()\<close> holds no name. The
  dictionary is an association list in insertion order, the order of \<^verbatim>\<open>items()\<close>.
\<close>

record 'a Globals =
  attrs :: "(string \<times> 'a) list"

definition Globals_init :: "'a Globals" where
  "Globals_init = \<lparr>attrs = []\<rparr>"

text \<open>An element of \<^verbatim>\<open>supported_frameworks\<close>: the source reads \<^verbatim>\<open>fw.ast.attrs\<close>.\<close>

record 'a framework =
  ast :: "'a Globals"

text \<open>The kind of a message: the class of the message object.\<close>

datatype MessageKind =
    SaveObjectKind
  | GetObjectKind
  | DeleteObjectKind
  | RunClassMethodKind
  | RunFunctionOrConstructorKind

fun kind_of :: "SyftMessage \<Rightarrow> MessageKind" where
  "kind_of (SaveObjectMessage u obj) = SaveObjectKind"
| "kind_of (GetObjectMessage u) = GetObjectKind"
| "kind_of (DeleteObjectMessage u) = DeleteObjectKind"
| "kind_of (RunClassMethodMessage u m args) = RunClassMethodKind"
| "kind_of (RunFunctionOrConstructorMessage path args) = RunFunctionOrConstructorKind"

text \<open>
  Modelled from the spec: \<^verbatim>\<open>WorkerStats\<close> is not in the source files. It is the
  statistics collector attached when \<^verbatim>\<open>debug\<close> is set, to which "every dispatch reports
  (message kind, success/failure, elapsed time)"; "the collector's own aggregation/rendering
  logic is out of scope", so the collector is the list of the reports it has received, and a
  new \<^verbatim>\<open>WorkerStats()\<close> has received none.
\<close>

record Report =
  report_kind :: MessageKind
  report_success :: bool
  report_elapsed :: nat

datatype WorkerStats = WorkerStats (reports: "Report list")

definition WorkerStats_init :: WorkerStats where
  "WorkerStats_init = WorkerStats []"

definition WorkerStats_report :: "Report \<Rightarrow> WorkerStats \<Rightarrow> WorkerStats" where
  "WorkerStats_report r stats = WorkerStats (reports stats @ [r])"

text \<open>
  The attributes that \<^verbatim>\<open>Worker.__init__\<close> sets. The router \<^verbatim>\<open>message_service_mapping\<close>
  is imported from a module that is not in the source files: it is a parameter of the
  constructor, of type \<open>'r\<close>.
\<close>

record ('a, 'r) Worker =
  worker_id :: string
  store :: ObjectStore
  frameworks :: "'a Globals"
  msg_router :: 'r
  worker_stats :: "WorkerStats option"

definition already_imported :: error where
  "already_imported = KeyError ''Framework already imported. Why are you importing it twice?''"

text \<open>
  The inner loop of \<^verbatim>\<open>Worker.__init__\<close>,
  \<^verbatim>\<open>for name, ast in fw.ast.attrs.items()\<close>, on the registry \<open>g\<close> built so far.
\<close>

fun register_attrs :: "(string \<times> 'a) list \<Rightarrow> 'a Globals \<Rightarrow> error + 'a Globals" where
  "register_attrs [] g = Inr g"
| "register_attrs ((name, node) # rest) g =
     (if name \<in> fst ` set (attrs g) then Inl already_imported
      else register_attrs rest (g\<lparr>attrs := attrs g @ [(name, node)]\<rparr>))"

text \<open>The outer loop, \<^verbatim>\<open>for fw in supported_frameworks\<close>.\<close>

fun register_frameworks :: "'a framework list \<Rightarrow> 'a Globals \<Rightarrow> error + 'a Globals" where
  "register_frameworks [] g = Inr g"
| "register_frameworks (fw # fws) g =
     (case register_attrs (attrs (ast fw)) g of
        Inl e \<Rightarrow> Inl e
      | Inr g' \<Rightarrow> register_frameworks fws g')"

text \<open>
  \<^verbatim>\<open>Worker.__init__(id, debug, supported_frameworks)\<close>: an exception leaves no Worker
  object, the result is \<open>Inl\<close>.
\<close>

definition Worker_init ::
  "string \<Rightarrow> bool \<Rightarrow> 'a framework list \<Rightarrow> 'r \<Rightarrow> error + ('a, 'r) Worker" where
  "Worker_init ident debug supported_frameworks message_service_mapping =
     (case register_frameworks supported_frameworks Globals_init of
        Inl e \<Rightarrow> Inl e
      | Inr g \<Rightarrow>
          Inr \<lparr>worker_id = ident,
               store = ObjectStore_init,
               frameworks = g,
               msg_router = message_service_mapping,
               worker_stats = (if debug then Some WorkerStats_init else None)\<rparr>)"

text \<open>
  \<^verbatim>\<open>Worker.recv_msg(self, msg) -> None\<close>: the body is \<^verbatim>\<open>pass\<close>. The result is the value
  returned and the Worker after the call.
\<close>

definition recv_msg :: "('a, 'r) Worker \<Rightarrow> SyftMessage \<Rightarrow> pyobj \<times> ('a, 'r) Worker" where
  "recv_msg self msg = (PyNone, self)"

text \<open>
  Modelled from the spec: the metaclass \<^verbatim>\<open>WorkerSupervisor\<close> of the class \<^verbatim>\<open>Worker\<close> is
  not in the source files. "If \<^verbatim>\<open>debug\<close> is set", the Worker has "a statistics collector
  that observes every dispatch (count, timing) without altering dispatch semantics":
  \<^verbatim>\<open>recv_msg\<close> "records statistics if enabled, returns the response". A call of
  \<^verbatim>\<open>recv_msg\<close> on a Worker object is therefore the body above, followed, when the Worker
  has a collector, by the report of the call; the body has returned, so the call is a
  success. The time that the call took is the parameter \<open>elapsed\<close>.
\<close>

definition supervised_recv_msg ::
  "nat \<Rightarrow> ('a, 'r) Worker \<Rightarrow> SyftMessage \<Rightarrow> pyobj \<times> ('a, 'r) Worker" where
  "supervised_recv_msg elapsed self msg =
     (case recv_msg self msg of
        (response, self') \<Rightarrow>
          (response,
           self'\<lparr>worker_stats :=
             map_option
               (WorkerStats_report
                  \<lparr>report_kind = kind_of msg, report_success = True, report_elapsed = elapsed\<rparr>)
               (worker_stats self')\<rparr>))"

text \<open>\<^verbatim>\<open>Worker._send_msg\<close> and \<^verbatim>\<open>Worker._recv_msg\<close>: \<^verbatim>\<open>raise NotImplementedError\<close>.\<close>

definition Worker_send_msg :: "('a, 'r) Worker \<Rightarrow> error + pyobj \<times> ('a, 'r) Worker" where
  "Worker_send_msg self = Inl NotImplementedError"

definition Worker_recv_msg :: "('a, 'r) Worker \<Rightarrow> error + pyobj \<times> ('a, 'r) Worker" where
  "Worker_recv_msg self = Inl NotImplementedError"

text \<open>The objects of the scenarios below.\<close>

definition uid_U :: UID where
  "uid_U = UID_init (Some 7) False 0"

definition node_a :: "(unit, unit) Worker" where
  "node_a = \<lparr>worker_id = ''node-a'', store = [], frameworks = \<lparr>attrs = []\<rparr>,
     msg_router = (), worker_stats = None\<rparr>"

definition node_debug :: "(unit, unit) Worker" where
  "node_debug = \<lparr>worker_id = ''node-a'', store = [], frameworks = \<lparr>attrs = []\<rparr>,
     msg_router = (), worker_stats = Some (WorkerStats [])\<rparr>"

definition uid_max :: UID where
  "uid_max = UID_init (Some 340282366920938463463374607431768211455) False 0"

definition uid_63 :: UID where
  "uid_63 = UID_init (Some 63) False 0"

definition fw_torch :: "unit framework" where
  "fw_torch = \<lparr>ast = \<lparr>attrs = [(''torch'', ())]\<rparr>\<rparr>"

definition fw_numpy :: "unit framework" where
  "fw_numpy = \<lparr>ast = \<lparr>attrs = [(''numpy'', ())]\<rparr>\<rparr>"

section \<open>Byte form of the 128-bit value\<close>

lemma from_bytes_big_snoc:
  "from_bytes_big (bs @ [b]) = from_bytes_big bs * 256 + uint b"
  by (simp add: from_bytes_big_def)

lemma length_to_bytes_big: "length (to_bytes_big n k) = k"
  by (induction k arbitrary: n) simp_all

lemma uint_byte_of_int: "uint (word_of_int n :: 8 word) = n mod 256"
  by (simp add: uint_word_of_int)

lemma from_to_bytes_big: "from_bytes_big (to_bytes_big n k) = n mod 256 ^ k"
proof (induction k arbitrary: n)
  case 0
  show ?case by (simp add: from_bytes_big_def)
next
  case (Suc k)
  have "from_bytes_big (to_bytes_big n (Suc k)) = (n div 256 mod 256 ^ k) * 256 + n mod 256"
    by (simp add: from_bytes_big_snoc Suc.IH uint_byte_of_int)
  also have "\<dots> = n mod (256 * 256 ^ k)"
    using zmod_zmult2_eq [of "256 ^ k" n 256] by simp
  finally show ?case by simp
qed

lemma UUID_int_range: "0 \<le> UUID_int v \<and> UUID_int v < 2 ^ 128"
proof -
  have "uint v < 2 ^ LENGTH(128)" by (rule uint_lt2p)
  then show ?thesis by (simp add: UUID_int_def)
qed

lemma from_bytes_UUID_bytes: "from_bytes_big (UUID_bytes v) = UUID_int v"
proof -
  have "from_bytes_big (UUID_bytes v) = UUID_int v mod 256 ^ 16"
    by (simp add: UUID_bytes_def from_to_bytes_big)
  moreover have "(256::int) ^ 16 = 2 ^ 128" by simp
  ultimately show ?thesis using UUID_int_range [of v] by simp
qed

lemma UUID_of_bytes_UUID_bytes: "UUID_of_bytes (UUID_bytes v) = Inr v"
proof -
  have len: "length (UUID_bytes v) = 16"
    by (simp add: UUID_bytes_def length_to_bytes_big)
  show ?thesis
    using UUID_int_range [of v]
    by (simp add: UUID_of_bytes_def len from_bytes_UUID_bytes) (simp add: UUID_int_def)
qed

text \<open>
  The integer read from \<open>n\<close> bytes is below \<open>256 ^ n\<close>, so the range check of
  \<^verbatim>\<open>uuid.UUID\<close> never fails on 16 bytes: the length is the only reason for a rejection.
\<close>

lemma from_bytes_big_range: "0 \<le> from_bytes_big bs \<and> from_bytes_big bs < 256 ^ length bs"
proof (induction bs rule: rev_induct)
  case Nil
  show ?case by (simp add: from_bytes_big_def)
next
  case (snoc b bs)
  have b: "0 \<le> uint b \<and> uint b < 256"
    using uint_lt2p [of b] by simp
  from snoc.IH have "from_bytes_big bs + 1 \<le> 256 ^ length bs" by simp
  then have "(from_bytes_big bs + 1) * 256 \<le> 256 ^ length bs * 256"
    by (rule mult_right_mono) simp
  then show ?case using b snoc.IH by (simp add: from_bytes_big_snoc algebra_simps)
qed

lemma UUID_of_bytes_accepts: "length b = 16 \<Longrightarrow> \<exists>v. UUID_of_bytes b = Inr v"
  using from_bytes_big_range [of b] by (simp add: UUID_of_bytes_def)

lemma proto2object_accepts:
  "length (proto_value proto) = 16 \<Longrightarrow> \<exists>obj. proto2object proto = Inr obj"
  using UUID_of_bytes_accepts [of "proto_value proto"] by (auto simp: proto2object_def)

text \<open>
  C2. For every UID constructed with \<^verbatim>\<open>as_wrapper\<close> false (with a given value or with a
  freshly generated one), deserializing its serialized form gives back a UID that is the
  same object field for field: the same 128-bit value and the same flag.
\<close>

theorem C2_round_trip:
  "proto2object (object2proto (UID_init val False fresh)) = Inr (PyUID (UID_init val False fresh))"
  by (simp add: proto2object_def object2proto_def UID_init_def UUID_of_bytes_UUID_bytes)

theorem C2_round_trip_witness:
  "proto2object (object2proto (UID_init (Some 7) False 0)) = Inr (PyUID (UID_init (Some 7) False 0))"
  using C2_round_trip [of "Some 7" 0] by simp

section \<open>Identifier equality, hash and deserialization\<close>

text \<open>What \<^verbatim>\<open>__eq__\<close> returns in its two cases.\<close>

lemma UID_eq_uid: "UID_eq a (PyUID b) = PyBool (uid_value a = uid_value b)"
  by simp

lemma UID_eq_non_uid: "(\<forall>u. other \<noteq> PyUID u) \<Longrightarrow> UID_eq a other = PyNone"
  by (cases other) simp_all

text \<open>
  C3. The claim says that comparing a UID with an object that is not a UID returns false.
  The method is annotated \<^verbatim>\<open>-> bool\<close> but has no \<^verbatim>\<open>else\<close> branch: compared with the
  integer 5 it returns \<^verbatim>\<open>None\<close>, which is not \<^verbatim>\<open>False\<close>.
\<close>

theorem C3_eq_non_uid_returns_None:
  "UID_eq uid_U (PyInt 5) = PyNone \<and> UID_eq uid_U (PyInt 5) \<noteq> PyBool False"
  by simp

text \<open>
  C5. When the flag was set at serialization time the deserializer returns the native
  uuid value itself, and when it was not set it returns a UID object.
\<close>

theorem C5_dual_return:
  "(as_wrapper u \<longrightarrow> proto2object (object2proto u) = Inr (PyUUID (uid_value u))) \<and>
   (\<not> as_wrapper u \<longrightarrow>
      proto2object (object2proto u) = Inr (PyUID \<lparr>uid_value = uid_value u, as_wrapper = False\<rparr>))"
  by (simp add: proto2object_def object2proto_def UID_init_def UUID_of_bytes_UUID_bytes)

theorem C5_dual_return_witness:
  "as_wrapper (UID_init (Some 7) True 0) \<and>
   proto2object (object2proto (UID_init (Some 7) True 0)) =
     Inr (PyUUID (uid_value (UID_init (Some 7) True 0))) \<and>
   \<not> as_wrapper (UID_init (Some 7) False 0) \<and>
   proto2object (object2proto (UID_init (Some 7) False 0)) =
     Inr (PyUID \<lparr>uid_value = uid_value (UID_init (Some 7) False 0), as_wrapper = False\<rparr>)"
  using C5_dual_return [of "UID_init (Some 7) True 0"]
    C5_dual_return [of "UID_init (Some 7) False 0"]
  by (simp add: UID_init_def)

text \<open>
  C6. If \<^verbatim>\<open>a == b\<close> is true for two UIDs then their hashes are the same integer; the hash
  is the integer form of the 128-bit value.
\<close>

theorem C6_eq_hash:
  "UID_eq a (PyUID b) = PyBool True \<Longrightarrow>
     UID_hash a = UID_hash b \<and> UID_hash a = uint (uid_value a)"
  by (simp add: UID_hash_def UUID_int_def)

theorem C6_eq_hash_witness:
  "UID_eq uid_U (PyUID (UID_init (Some 7) True 0)) = PyBool True \<and>
   UID_hash uid_U = UID_hash (UID_init (Some 7) True 0) \<and>
   UID_hash uid_U = uint (uid_value uid_U)"
proof -
  have h: "UID_eq uid_U (PyUID (UID_init (Some 7) True 0)) = PyBool True"
    by (simp add: uid_U_def UID_init_def)
  show ?thesis using h C6_eq_hash [OF h] by simp
qed

text \<open>
  C7. A byte string whose length is not 16 is rejected with the \<^verbatim>\<open>ValueError\<close> of
  \<^verbatim>\<open>uuid.UUID\<close> (the spec's \<^verbatim>\<open>InvalidIdentifierBytes\<close>): the deserializer returns no
  identifier at all.
\<close>

theorem C7_invalid_bytes:
  "length (proto_value proto) \<noteq> 16 \<Longrightarrow>
     proto2object proto = Inl (ValueError ''bytes is not a 16-char string'') \<and>
     (\<forall>obj. proto2object proto \<noteq> Inr obj)"
  by (simp add: proto2object_def UUID_of_bytes_def)

theorem C7_invalid_bytes_witness:
  "length (proto_value \<lparr>obj_type = ''syft.core.common.uid.UID'', proto_value = [1, 2, 3],
      proto_as_wrapper = False\<rparr>) \<noteq> 16 \<and>
   proto2object \<lparr>obj_type = ''syft.core.common.uid.UID'', proto_value = [1, 2, 3],
      proto_as_wrapper = False\<rparr> = Inl (ValueError ''bytes is not a 16-char string'') \<and>
   (\<forall>obj. proto2object \<lparr>obj_type = ''syft.core.common.uid.UID'', proto_value = [1, 2, 3],
      proto_as_wrapper = False\<rparr> \<noteq> Inr obj)"
  using C7_invalid_bytes [of "\<lparr>obj_type = ''syft.core.common.uid.UID'', proto_value = [1, 2, 3],
      proto_as_wrapper = False\<rparr>"]
  by simp

text \<open>
  C10. The claim as stated, for \<^verbatim>\<open>hash(a) == hash(b)\<close>, fails: the UID of value
  \<open>2^128 - 1\<close> and the UID of value 63 are different and both have the hash 63, since
  \<open>2^128 - 1\<close> does not fit 64 bits and is reduced modulo \<open>2^61 - 1\<close>.
\<close>

theorem C10_hash_collision:
  "hash_UID uid_max = hash_UID uid_63 \<and> hash_UID uid_63 = 63 \<and>
   uid_value uid_max \<noteq> uid_value uid_63"
  by (simp add: hash_UID_def builtin_hash_def long_hash_def UID_hash_def UUID_int_def
      uid_max_def uid_63_def UID_init_def)

text \<open>
  C10, as amended. The integer that \<^verbatim>\<open>__hash__\<close> returns is injective: two UIDs for
  which \<^verbatim>\<open>__hash__\<close> returns the same integer have the same 128-bit value, since the
  integer returned is the whole value.
\<close>

theorem C10_hash_injective:
  "UID_hash a = UID_hash b \<Longrightarrow> uid_value a = uid_value b"
  by (simp add: UID_hash_def UUID_int_def word_uint_eq_iff)

theorem C10_hash_injective_witness:
  "UID_hash uid_U = UID_hash (UID_init (Some 7) True 0) \<and>
   uid_value uid_U = uid_value (UID_init (Some 7) True 0)"
proof -
  have h: "UID_hash uid_U = UID_hash (UID_init (Some 7) True 0)"
    by (simp add: UID_hash_def uid_U_def UID_init_def)
  show ?thesis using h C10_hash_injective [OF h] by simp
qed

section \<open>Worker: messages and transport\<close>

lemma supervised_recv_msg_debug_off:
  "worker_stats w = None \<Longrightarrow> supervised_recv_msg elapsed w msg = recv_msg w msg"
  by (simp add: supervised_recv_msg_def recv_msg_def)

text \<open>
  C9. The claim as stated, for every Worker state, fails on a Worker constructed with
  debug on: after one call of \<^verbatim>\<open>recv_msg\<close> its statistics collector holds the report of
  the call, so the Worker is not as it was before.
\<close>

theorem C9_debug_counterexample:
  "Worker_init ''node-a'' True [] () = Inr node_debug \<and>
   snd (supervised_recv_msg 1 node_debug (GetObjectMessage uid_U)) \<noteq> node_debug \<and>
   worker_stats (snd (supervised_recv_msg 1 node_debug (GetObjectMessage uid_U))) =
     Some (WorkerStats
       [\<lparr>report_kind = GetObjectKind, report_success = True, report_elapsed = 1\<rparr>])"
  by (simp add: Worker_init_def Globals_init_def ObjectStore_init_def WorkerStats_init_def
      node_debug_def supervised_recv_msg_def recv_msg_def WorkerStats_report_def)

text \<open>
  C9, as amended. Whatever the message and whatever the Worker, a call of \<^verbatim>\<open>recv_msg\<close>
  returns \<^verbatim>\<open>None\<close> and leaves the identifier, the object store, the frameworks and the
  router as they were; the body of the method changes nothing at all. A Worker without a
  statistics collector (debug off) is unchanged as a whole, and the collector of a Worker
  that has one (debug on) is the collector before the call with the report of this call
  added at its end.
\<close>

theorem C9_recv_msg_frame:
  "recv_msg w msg = (PyNone, w) \<and>
   fst (supervised_recv_msg elapsed w msg) = PyNone \<and>
   worker_id (snd (supervised_recv_msg elapsed w msg)) = worker_id w \<and>
   store (snd (supervised_recv_msg elapsed w msg)) = store w \<and>
   frameworks (snd (supervised_recv_msg elapsed w msg)) = frameworks w \<and>
   msg_router (snd (supervised_recv_msg elapsed w msg)) = msg_router w \<and>
   (worker_stats w = None \<longrightarrow> snd (supervised_recv_msg elapsed w msg) = w) \<and>
   (\<forall>stats. worker_stats w = Some stats \<longrightarrow>
      worker_stats (snd (supervised_recv_msg elapsed w msg)) =
        Some (WorkerStats (reports stats @
          [\<lparr>report_kind = kind_of msg, report_success = True, report_elapsed = elapsed\<rparr>])))"
  by (simp add: supervised_recv_msg_def recv_msg_def WorkerStats_report_def)

theorem C9_recv_msg_frame_witness:
  "worker_stats node_a = None \<and>
   snd (supervised_recv_msg 1 node_a (GetObjectMessage uid_U)) = node_a \<and>
   worker_stats node_debug = Some (WorkerStats []) \<and>
   worker_stats (snd (supervised_recv_msg 1 node_debug (GetObjectMessage uid_U))) =
     Some (WorkerStats
       [\<lparr>report_kind = GetObjectKind, report_success = True, report_elapsed = 1\<rparr>])"
proof -
  have off: "worker_stats node_a = None" by (simp add: node_a_def)
  have on: "worker_stats node_debug = Some (WorkerStats [])" by (simp add: node_debug_def)
  show ?thesis
    using off on
      C9_recv_msg_frame [of node_a "GetObjectMessage uid_U" 1]
      C9_recv_msg_frame [of node_debug "GetObjectMessage uid_U" 1]
    by simp
qed

text \<open>
  C8. The transport methods of the base Worker raise \<^verbatim>\<open>NotImplementedError\<close> for every
  Worker, whatever it was constructed with.
\<close>

theorem C8_transport_not_implemented:
  "Worker_send_msg w = Inl NotImplementedError \<and> Worker_recv_msg w = Inl NotImplementedError"
  by (simp add: Worker_send_msg_def Worker_recv_msg_def)

text \<open>
  C1. The scenario as the claim states it fails at its second step: on the Worker
  \<open>node_a\<close>, which is what the constructor returns for id \<^verbatim>\<open>"node-a"\<close>, no frameworks and
  debug off, \<^verbatim>\<open>recv_msg(GetObject{uid=U})\<close> after \<^verbatim>\<open>recv_msg(SaveObject{uid=U, object=42})\<close>
  does not return 42.
\<close>

theorem C1_scenario_counterexample:
  "Worker_init ''node-a'' False [] () = Inr node_a \<and>
   fst (recv_msg (snd (recv_msg node_a (SaveObjectMessage uid_U (PyInt 42))))
         (GetObjectMessage uid_U)) \<noteq> PyInt 42"
  by (simp add: Worker_init_def Globals_init_def ObjectStore_init_def node_a_def recv_msg_def)

text \<open>
  C1, as amended. Constructing the Worker with id \<^verbatim>\<open>"node-a"\<close>, no frameworks and debug
  off succeeds, and each of the four calls of the scenario (save, get, delete, get)
  returns \<^verbatim>\<open>None\<close> and leaves the Worker as it was, so the object store stays empty.
\<close>

theorem C1_scenario_amended:
  "\<exists>w. Worker_init ''node-a'' False [] router = Inr w \<and>
       store w = [] \<and>
       recv_msg w (SaveObjectMessage U (PyInt 42)) = (PyNone, w) \<and>
       recv_msg w (GetObjectMessage U) = (PyNone, w) \<and>
       recv_msg w (DeleteObjectMessage U) = (PyNone, w) \<and>
       recv_msg w (GetObjectMessage U) = (PyNone, w)"
  by (simp add: Worker_init_def Globals_init_def ObjectStore_init_def recv_msg_def)

section \<open>Worker: registration of frameworks\<close>

lemma register_attrs_error:
  "register_attrs xs g = Inl e \<Longrightarrow> e = already_imported"
  by (induction xs g rule: register_attrs.induct) (auto split: if_splits)

lemma register_attrs_names:
  "register_attrs xs g = Inr g' \<Longrightarrow> fst ` set (attrs g') = fst ` set (attrs g) \<union> fst ` set xs"
  by (induction xs g rule: register_attrs.induct) (auto split: if_splits)

lemma register_attrs_duplicate:
  "n \<in> fst ` set xs \<Longrightarrow> n \<in> fst ` set (attrs g) \<Longrightarrow> register_attrs xs g = Inl already_imported"
proof (induction xs g rule: register_attrs.induct)
  case (1 g)
  then show ?case by simp
next
  case (2 name node rest g)
  show ?case
  proof (cases "name \<in> fst ` set (attrs g)")
    case True
    then show ?thesis by simp
  next
    case False
    with "2.prems" have "n \<noteq> name" by auto
    with "2.prems" have "n \<in> fst ` set rest" by auto
    moreover have "n \<in> fst ` set (attrs (g\<lparr>attrs := attrs g @ [(name, node)]\<rparr>))"
      using "2.prems"(2) by auto
    ultimately show ?thesis using "2.IH" [OF False] False by simp
  qed
qed

lemma register_frameworks_error:
  "register_frameworks fws g = Inl e \<Longrightarrow> e = already_imported"
  by (induction fws arbitrary: g) (auto split: sum.splits dest: register_attrs_error)

lemma register_frameworks_registered:
  "n \<in> fst ` set (attrs g) \<Longrightarrow> fw \<in> set fws \<Longrightarrow> n \<in> fst ` set (attrs (ast fw)) \<Longrightarrow>
     register_frameworks fws g = Inl already_imported"
proof (induction fws arbitrary: g)
  case Nil
  then show ?case by simp
next
  case (Cons f fws)
  show ?case
  proof (cases "register_attrs (attrs (ast f)) g")
    case (Inl e)
    then show ?thesis by (simp add: register_attrs_error)
  next
    case (Inr g')
    have names: "n \<in> fst ` set (attrs g')"
      using Cons.prems(1) register_attrs_names [OF Inr] by simp
    have "fw \<noteq> f"
    proof
      assume "fw = f"
      then have "register_attrs (attrs (ast f)) g = Inl already_imported"
        using register_attrs_duplicate [OF _ Cons.prems(1)] Cons.prems(3) by simp
      with Inr show False by simp
    qed
    then have mem: "fw \<in> set fws" using Cons.prems(2) by simp
    have "register_frameworks fws g' = Inl already_imported"
      using names mem Cons.prems(3) by (rule Cons.IH)
    then show ?thesis using Inr by simp
  qed
qed

lemma register_frameworks_duplicate:
  "i < j \<Longrightarrow> j < length fws \<Longrightarrow> n \<in> fst ` set (attrs (ast (fws ! i))) \<Longrightarrow>
     n \<in> fst ` set (attrs (ast (fws ! j))) \<Longrightarrow>
     register_frameworks fws g = Inl already_imported"
proof (induction fws arbitrary: i j g)
  case Nil
  then show ?case by simp
next
  case (Cons f fws)
  obtain j' where j: "j = Suc j'" using Cons.prems(1) by (cases j) auto
  show ?case
  proof (cases "register_attrs (attrs (ast f)) g")
    case (Inl e)
    then show ?thesis by (simp add: register_attrs_error)
  next
    case (Inr g')
    show ?thesis
    proof (cases i)
      case 0
      have names: "n \<in> fst ` set (attrs g')"
        using Cons.prems(3) 0 register_attrs_names [OF Inr] by simp
      have mem: "fws ! j' \<in> set fws" using Cons.prems(2) j by simp
      have dup: "n \<in> fst ` set (attrs (ast (fws ! j')))" using Cons.prems(4) j by simp
      have "register_frameworks fws g' = Inl already_imported"
        using names mem dup by (rule register_frameworks_registered)
      then show ?thesis using Inr by simp
    next
      case (Suc i')
      have "register_frameworks fws g' = Inl already_imported"
        using Cons.IH [of i' j' g'] Cons.prems j Suc by simp
      then show ?thesis using Inr by simp
    qed
  qed
qed

text \<open>
  C4. If two frameworks of the list register the same name, the constructor raises the
  \<^verbatim>\<open>KeyError\<close> "Framework already imported" (the spec's \<^verbatim>\<open>DuplicateFrameworkError\<close>)
  and returns no Worker, whatever the other arguments: the name is neither merged nor
  overwritten, since no registry is left.
\<close>

theorem C4_duplicate_framework:
  "i < j \<Longrightarrow> j < length fws \<Longrightarrow> n \<in> fst ` set (attrs (ast (fws ! i))) \<Longrightarrow>
     n \<in> fst ` set (attrs (ast (fws ! j))) \<Longrightarrow>
     Worker_init ident debug fws router = Inl already_imported \<and>
     (\<forall>w. Worker_init ident debug fws router \<noteq> Inr w)"
  by (simp add: Worker_init_def register_frameworks_duplicate)

theorem C4_duplicate_framework_witness:
  "(0::nat) < 2 \<and> (2::nat) < length [fw_torch, fw_numpy, fw_torch] \<and>
   ''torch'' \<in> fst ` set (attrs (ast ([fw_torch, fw_numpy, fw_torch] ! 0))) \<and>
   ''torch'' \<in> fst ` set (attrs (ast ([fw_torch, fw_numpy, fw_torch] ! 2))) \<and>
   (Worker_init ''node-a'' False [fw_torch, fw_numpy, fw_torch] () :: error + (unit, unit) Worker)
     = Inl already_imported"
proof -
  have h3: "''torch'' \<in> fst ` set (attrs (ast ([fw_torch, fw_numpy, fw_torch] ! 0)))"
    by (simp add: fw_torch_def)
  have h4: "''torch'' \<in> fst ` set (attrs (ast ([fw_torch, fw_numpy, fw_torch] ! 2)))"
    by (simp add: fw_torch_def)
  have "(Worker_init ''node-a'' False [fw_torch, fw_numpy, fw_torch] () :: error + (unit, unit) Worker)
     = Inl already_imported"
    using h3 h4
      C4_duplicate_framework [of 0 2 "[fw_torch, fw_numpy, fw_torch]" "''torch''" "''node-a''" False "()"]
    by simp
  then show ?thesis using h3 h4 by simp
qed

end
